theory Spec2Isabelle
  imports Main "HOL-Library.Word"
begin

section \<open>The USB-RLY08 command codec (class \<open>usbrly\<close> of usbrly08.py)\<close>

text \<open>
  The class \<open>usbrly\<close> holds one attribute, \<open>fd\<close>, a reference to a channel object
  with the two methods \<open>write\<close> and \<open>read\<close>. Each method of the class is embedded as a
  function that takes the object, its arguments and the heap of channel objects, and returns
  the outcome (the raised exception or the returned value), the object and the heap after
  the call. Python integers are \<open>int\<close>; the \<open>bytes\<close> a channel returns are lists of
  8-bit words; the list of integers handed to \<open>write\<close> stays a list of \<open>int\<close>.
\<close>

subsection \<open>Data\<close>

type_synonym byte = "8 word"

text \<open>The keys of the dictionary \<open>CMDS\<close> and the dictionary itself.\<close>

datatype cmd =
    GET_SERIAL | GET_SW_VERSION | GET_STATES | SET_STATES
  | ALL_ON | FIRST_ON | ALL_OFF | FIRST_OFF

fun CMDS :: "cmd \<Rightarrow> int" where
  "CMDS GET_SERIAL = 56"
| "CMDS GET_SW_VERSION = 90"
| "CMDS GET_STATES = 91"
| "CMDS SET_STATES = 92"
| "CMDS ALL_ON = 100"
| "CMDS FIRST_ON = 101"
| "CMDS ALL_OFF = 110"
| "CMDS FIRST_OFF = 111"

text \<open>
  The exceptions a method can end with. \<open>ValueError\<close> and \<open>OSError\<close> carry the message
  the source builds; \<open>UnicodeDecodeError\<close> carries the position and the value of the
  offending byte; \<open>StructError\<close> is \<open>struct.error\<close>; \<open>ChannelError\<close> is whatever
  exception the channel object raised, passed on untouched.
\<close>

datatype error =
    ValueError string
  | OSError string
  | UnicodeDecodeError nat byte
  | StructError
  | ChannelError string

text \<open>
  The argument of \<open>set_states\<close> is inspected with \<open>type(states) != int\<close>, so it is a
  dynamically typed value: an \<open>int\<close>, a \<open>bool\<close> (whose type is not \<open>int\<close>), a
  string or \<open>None\<close>. The integers are those of Python 3, where every integer has
  the type \<open>int\<close>. The relay index of \<open>set_state\<close> is only compared and added, and
  is an \<open>int\<close>; its \<open>state\<close> is only tested for truth, and is a \<open>bool\<close>.
\<close>

datatype pyval = PyInt int | PyBool bool | PyStr string | PyNone

subsection \<open>The channel object\<close>

text \<open>
  A call on the channel is recorded as an event. The channel is any object with a
  \<open>write\<close> and a \<open>read\<close> method: its behaviour is a function of the calls it has
  received so far and of the argument. \<open>write\<close> either raises (\<open>Some e\<close>) or returns;
  \<open>read\<close> either raises (\<open>Inl e\<close>) or returns bytes.
\<close>

datatype event = Write "int list" | Read nat

record channel =
  on_write :: "event list \<Rightarrow> int list \<Rightarrow> string option"
  on_read :: "event list \<Rightarrow> nat \<Rightarrow> string + byte list"
  calls :: "event list"

type_synonym heap = "nat \<Rightarrow> channel"

record usbrly =
  fd :: nat

text \<open>\<open>__init__(self, fd)\<close>\<close>

definition init :: "nat \<Rightarrow> usbrly" where
  "init p = \<lparr>fd = p\<rparr>"

text \<open>\<open>self.fd.write(data)\<close> and \<open>self.fd.read(n)\<close>: the call is recorded, then it answers.\<close>

definition fd_write :: "nat \<Rightarrow> int list \<Rightarrow> heap \<Rightarrow> (error + unit) \<times> heap" where
  "fd_write p data h =
     (let c = h p;
          h' = h(p := c\<lparr>calls := calls c @ [Write data]\<rparr>)
      in case on_write c (calls c) data of
           Some e \<Rightarrow> (Inl (ChannelError e), h')
         | None \<Rightarrow> (Inr (), h'))"

definition fd_read :: "nat \<Rightarrow> nat \<Rightarrow> heap \<Rightarrow> (error + byte list) \<times> heap" where
  "fd_read p n h =
     (let c = h p;
          h' = h(p := c\<lparr>calls := calls c @ [Read n]\<rparr>)
      in case on_read c (calls c) n of
           Inl e \<Rightarrow> (Inl (ChannelError e), h')
         | Inr bs \<Rightarrow> (Inr bs, h'))"

subsection \<open>Library functions the methods call\<close>

text \<open>The \<open>%d\<close> conversion of an integer.\<close>

definition digit :: "nat \<Rightarrow> char" where
  "digit d = ''0123456789'' ! d"

fun show_nat :: "nat \<Rightarrow> string" where
  "show_nat n =
     (if n < 10 then [digit n]
      else show_nat (n div 10) @ [digit (n mod 10)])"

declare show_nat.simps [simp del]

definition show_int :: "int \<Rightarrow> string" where
  "show_int i = (if i < 0 then CHR ''-'' # show_nat (nat (- i)) else show_nat (nat i))"

text \<open>
  \<open>struct.unpack\<close> with a format of \<open>n\<close> characters \<open>B\<close>: the buffer must hold exactly
  \<open>n\<close> bytes, and each byte is returned as an unsigned integer.
\<close>

definition struct_unpack_B :: "nat \<Rightarrow> byte list \<Rightarrow> error + int list" where
  "struct_unpack_B n buf =
     (if length buf \<noteq> n then Inl StructError else Inr (map uint buf))"

text \<open>
  \<open>bytes.decode('ascii')\<close>, strict: the first byte above 127 raises, with its position.
\<close>

fun decode_ascii_from :: "nat \<Rightarrow> byte list \<Rightarrow> error + string" where
  "decode_ascii_from i [] = Inr []"
| "decode_ascii_from i (b # bs) =
     (if b < 128 then
        (case decode_ascii_from (Suc i) bs of
           Inl e \<Rightarrow> Inl e
         | Inr s \<Rightarrow> Inr (char_of (unat b) # s))
      else Inl (UnicodeDecodeError i b))"

definition decode_ascii :: "byte list \<Rightarrow> error + string" where
  "decode_ascii bs = decode_ascii_from 0 bs"

subsection \<open>The methods\<close>

definition set_state ::
  "usbrly \<Rightarrow> int \<Rightarrow> bool \<Rightarrow> heap \<Rightarrow> (error + unit) \<times> usbrly \<times> heap" where
  "set_state self relay state h =
     (if relay < 0 \<or> relay > 7 then
        (Inl (ValueError (''Given relay value '' @ show_int relay @ '' is out of range'')),
         self, h)
      else
        let controlByte =
              (if state then CMDS FIRST_ON + relay else CMDS FIRST_OFF + relay)
        in case fd_write (fd self) [controlByte] h of
             (r, h') \<Rightarrow> (r, self, h'))"

definition set_states ::
  "usbrly \<Rightarrow> pyval \<Rightarrow> heap \<Rightarrow> (error + unit) \<times> usbrly \<times> heap" where
  "set_states self states h =
     (case states of
        PyInt m \<Rightarrow>
          if m < 0 \<or> m > 255 then
            (Inl (ValueError ''states must be a in range of [0, 255]''), self, h)
          else
            (case fd_write (fd self) [CMDS SET_STATES, m] h of
               (r, h') \<Rightarrow> (r, self, h'))
      | _ \<Rightarrow> (Inl (ValueError ''states must be given as an int''), self, h))"

definition get_states ::
  "usbrly \<Rightarrow> heap \<Rightarrow> (error + int) \<times> usbrly \<times> heap" where
  "get_states self h =
     (case fd_write (fd self) [CMDS GET_STATES] h of
        (Inl e, h1) \<Rightarrow> (Inl e, self, h1)
      | (Inr _, h1) \<Rightarrow>
          (case fd_read (fd self) 1 h1 of
             (Inl e, h2) \<Rightarrow> (Inl e, self, h2)
           | (Inr states, h2) \<Rightarrow>
               if length states \<noteq> 1 then
                 (Inl (OSError ''get_states failed to read the requested number of bytes''),
                  self, h2)
               else
                 (case struct_unpack_B 1 states of
                    Inl e \<Rightarrow> (Inl e, self, h2)
                  | Inr t \<Rightarrow> (Inr (t ! 0), self, h2))))"

definition set_all ::
  "usbrly \<Rightarrow> bool \<Rightarrow> heap \<Rightarrow> (error + unit) \<times> usbrly \<times> heap" where
  "set_all self state h =
     (let controlByte = (if state then CMDS ALL_ON else CMDS ALL_OFF)
      in case fd_write (fd self) [controlByte] h of
           (r, h') \<Rightarrow> (r, self, h'))"

definition get_serial ::
  "usbrly \<Rightarrow> heap \<Rightarrow> (error + string) \<times> usbrly \<times> heap" where
  "get_serial self h =
     (case fd_write (fd self) [CMDS GET_SERIAL] h of
        (Inl e, h1) \<Rightarrow> (Inl e, self, h1)
      | (Inr _, h1) \<Rightarrow>
          (case fd_read (fd self) 8 h1 of
             (Inl e, h2) \<Rightarrow> (Inl e, self, h2)
           | (Inr serial, h2) \<Rightarrow>
               if length serial \<noteq> 8 then
                 (Inl (OSError ''get_serial failed to read the requested number of bytes''),
                  self, h2)
               else (decode_ascii serial, self, h2)))"

definition get_sw_version ::
  "usbrly \<Rightarrow> heap \<Rightarrow> (error + int list) \<times> usbrly \<times> heap" where
  "get_sw_version self h =
     (case fd_write (fd self) [CMDS GET_SW_VERSION] h of
        (Inl e, h1) \<Rightarrow> (Inl e, self, h1)
      | (Inr _, h1) \<Rightarrow>
          (case fd_read (fd self) 2 h1 of
             (Inl e, h2) \<Rightarrow> (Inl e, self, h2)
           | (Inr version, h2) \<Rightarrow>
               if length version \<noteq> 2 then
                 (Inl (OSError ''get_sw_version failed to read the requested number of bytes''),
                  self, h2)
               else (struct_unpack_B 2 version, self, h2)))"

subsection \<open>Vocabulary for stating the properties\<close>

text \<open>The heap after the channel at \<open>p\<close> has recorded the calls \<open>evs\<close>, nothing else changed.\<close>

definition logged :: "heap \<Rightarrow> nat \<Rightarrow> event list \<Rightarrow> heap" where
  "logged h p evs = h(p := (h p)\<lparr>calls := calls (h p) @ evs\<rparr>)"

text \<open>What a \<open>write\<close> of \<open>data\<close> on the channel at \<open>p\<close> ends with in the heap \<open>h\<close>.\<close>

definition write_outcome :: "heap \<Rightarrow> nat \<Rightarrow> int list \<Rightarrow> error + unit" where
  "write_outcome h p data =
     (case on_write (h p) (calls (h p)) data of
        Some e \<Rightarrow> Inl (ChannelError e)
      | None \<Rightarrow> Inr ())"

text \<open>
  The shape the three queries share: write the request, read \<open>n\<close> bytes, compare the
  length, parse. Each query is shown equal to an instance of it below.
\<close>

definition query ::
  "nat \<Rightarrow> int list \<Rightarrow> nat \<Rightarrow> string \<Rightarrow> (byte list \<Rightarrow> error + 'a) \<Rightarrow> heap
   \<Rightarrow> (error + 'a) \<times> heap" where
  "query p req n msg parse h =
     (case on_write (h p) (calls (h p)) req of
        Some e \<Rightarrow> (Inl (ChannelError e), logged h p [Write req])
      | None \<Rightarrow>
          (case on_read (h p) (calls (h p) @ [Write req]) n of
             Inl e \<Rightarrow> (Inl (ChannelError e), logged h p [Write req, Read n])
           | Inr bs \<Rightarrow>
               (if length bs \<noteq> n then Inl (OSError msg) else parse bs,
                logged h p [Write req, Read n])))"

text \<open>
  Two channels to run the methods on: one that records every write, never raises and
  answers a read of \<open>n\<close> with the first \<open>n\<close> of its pending bytes (fewer when it has
  fewer: a timeout); and one whose every call raises.
\<close>

definition recording_channel :: "byte list \<Rightarrow> channel" where
  "recording_channel pending =
     \<lparr>on_write = (\<lambda>hist data. None),
      on_read = (\<lambda>hist n. Inr (take n pending)),
      calls = []\<rparr>"

definition failing_channel :: "channel" where
  "failing_channel =
     \<lparr>on_write = (\<lambda>hist data. Some ''write timeout''),
      on_read = (\<lambda>hist n. Inl ''read failed''),
      calls = []\<rparr>"

text \<open>A channel that accepts writes and whose reads raise.\<close>

definition deaf_channel :: "channel" where
  "deaf_channel =
     \<lparr>on_write = (\<lambda>hist data. None),
      on_read = (\<lambda>hist n. Inl ''read failed''),
      calls = []\<rparr>"

text \<open>
  A call of any one method, and its execution with the returned value forgotten: what is
  left is the exception if one was raised, the object and the heap.
\<close>

datatype call =
    SetState int bool | SetStates pyval | GetStates | SetAll bool | GetSerial | GetSwVersion

definition failure :: "error + 'a \<Rightarrow> error option" where
  "failure r = (case r of Inl e \<Rightarrow> Some e | Inr v \<Rightarrow> None)"

definition forget :: "(error + 'a) \<times> usbrly \<times> heap \<Rightarrow> error option \<times> usbrly \<times> heap" where
  "forget t = (case t of (r, self', h') \<Rightarrow> (failure r, self', h'))"

fun invoke :: "call \<Rightarrow> usbrly \<Rightarrow> heap \<Rightarrow> error option \<times> usbrly \<times> heap" where
  "invoke (SetState relay state) self h = forget (set_state self relay state h)"
| "invoke (SetStates states) self h = forget (set_states self states h)"
| "invoke GetStates self h = forget (get_states self h)"
| "invoke (SetAll state) self h = forget (set_all self state h)"
| "invoke GetSerial self h = forget (get_serial self h)"
| "invoke GetSwVersion self h = forget (get_sw_version self h)"

text \<open>
  The exchanges a method may have with the channel: nothing, one write, or one write
  followed by one read.
\<close>

fun exchange_shape :: "event list \<Rightarrow> bool" where
  "exchange_shape [] = True"
| "exchange_shape [Write d] = True"
| "exchange_shape [Write d, Read n] = True"
| "exchange_shape evs = False"

text \<open>
  Whether the channel \<open>c\<close>, having received the calls \<open>hist\<close>, raises on the call \<open>ev\<close>,
  and whether it answers a read with fewer bytes than asked.
\<close>

fun channel_raises :: "channel \<Rightarrow> event list \<Rightarrow> event \<Rightarrow> string option" where
  "channel_raises c hist (Write d) = on_write c hist d"
| "channel_raises c hist (Read n) =
     (case on_read c hist n of Inl e \<Rightarrow> Some e | Inr bs \<Rightarrow> None)"

fun short_read :: "channel \<Rightarrow> event list \<Rightarrow> event \<Rightarrow> bool" where
  "short_read c hist (Write d) = False"
| "short_read c hist (Read n) =
     (case on_read c hist n of Inl e \<Rightarrow> False | Inr bs \<Rightarrow> length bs < n)"

section \<open>Properties\<close>

subsection \<open>Channel calls\<close>

lemma fd_write_eq: "fd_write p data h = (write_outcome h p data, logged h p [Write data])"
  by (simp add: fd_write_def write_outcome_def logged_def Let_def split: option.split)

lemma logged_append: "logged (logged h p xs) p ys = logged h p (xs @ ys)"
  by (simp add: logged_def)

lemma logged_other: "q \<noteq> p \<Longrightarrow> logged h p evs q = h q"
  by (simp add: logged_def)

lemma logged_calls: "calls (logged h p evs p) = calls (h p) @ evs"
  by (simp add: logged_def)

lemma logged_behaviour:
  "on_write (logged h p evs p) = on_write (h p)"
  "on_read (logged h p evs p) = on_read (h p)"
  by (simp_all add: logged_def)

subsection \<open>Switching one relay\<close>

lemma set_state_eq:
  "0 \<le> r \<Longrightarrow> r \<le> 7 \<Longrightarrow>
   set_state self r st h =
     (write_outcome h (fd self) [(if st then 101 + r else 111 + r)], self,
      logged h (fd self) [Write [(if st then 101 + r else 111 + r)]])"
  by (simp add: set_state_def fd_write_eq Let_def)

text \<open>
  Claim C1. For a relay index \<open>r\<close> from 0 to 7, \<open>set_state\<close> makes exactly one call on
  the channel, a write of the single byte \<open>101 + r\<close> (on) or \<open>111 + r\<close> (off), and no
  read; it ends the way that write ends, so it returns normally whenever the channel
  takes the byte.
\<close>

theorem set_state_writes_opcode:
  assumes "0 \<le> r" and "r \<le> 7"
  shows "snd (set_state self r st h) =
           (self, logged h (fd self) [Write [(if st then 101 + r else 111 + r)]])
         \<and> fst (set_state self r st h) =
             write_outcome h (fd self) [(if st then 101 + r else 111 + r)]
         \<and> (on_write (h (fd self)) (calls (h (fd self)))
               [(if st then 101 + r else 111 + r)] = None
             \<longrightarrow> fst (set_state self r st h) = Inr ())"
  using assms by (simp add: set_state_eq write_outcome_def)

theorem set_state_writes_opcode_witness:
  "set_state (init 0) 3 True (\<lambda>p. recording_channel []) =
     (Inr (), init 0, logged (\<lambda>p. recording_channel []) 0 [Write [104]])
   \<and> set_state (init 0) 7 False (\<lambda>p. failing_channel) =
     (Inl (ChannelError ''write timeout''), init 0,
      logged (\<lambda>p. failing_channel) 0 [Write [118]])"
  using set_state_writes_opcode [of 3 "init 0" True "\<lambda>p. recording_channel []"]
    set_state_writes_opcode [of 7 "init 0" False "\<lambda>p. failing_channel"]
  by (simp add: prod_eq_iff init_def recording_channel_def failing_channel_def
      write_outcome_def)

text \<open>
  Claim C2. A relay index below 0 or above 7 makes \<open>set_state\<close> raise \<open>ValueError\<close>
  (the spec's InvalidArgument), and a mask below 0 or above 255 makes \<open>set_states\<close> raise
  \<open>ValueError\<close>; in both cases the heap is returned as it was: the channel received no
  call, so no byte was written.
\<close>

theorem invalid_argument_before_write:
  "(r < 0 \<or> 7 < r \<longrightarrow>
      set_state self r st h =
        (Inl (ValueError (''Given relay value '' @ show_int r @ '' is out of range'')),
         self, h))
   \<and> (m < 0 \<or> 255 < m \<longrightarrow>
      set_states self (PyInt m) h =
        (Inl (ValueError ''states must be a in range of [0, 255]''), self, h))"
  by (simp add: set_state_def set_states_def)

theorem invalid_argument_before_write_witness:
  "set_state (init 0) 8 True (\<lambda>p. recording_channel []) =
     (Inl (ValueError ''Given relay value 8 is out of range''), init 0,
      \<lambda>p. recording_channel [])
   \<and> set_states (init 0) (PyInt (- 1)) (\<lambda>p. recording_channel []) =
     (Inl (ValueError ''states must be a in range of [0, 255]''), init 0,
      \<lambda>p. recording_channel [])"
  using invalid_argument_before_write
    [of 8 "init 0" True "\<lambda>p. recording_channel []" "- 1"]
  by (simp add: show_int_def show_nat.simps digit_def)

text \<open>
  Claim C8. For a relay index \<open>r\<close> from 0 to 7 and either base, the opcode that
  \<open>set_state\<close> hands to the channel lies between the base and the base plus 7, and
  subtracting the base from it gives \<open>r\<close> back.
\<close>

theorem relay_opcode_roundtrip:
  assumes "0 \<le> r" and "r \<le> 7"
  shows "\<exists>b. calls (snd (snd (set_state self r st h)) (fd self)) =
               calls (h (fd self)) @ [Write [b]]
             \<and> CMDS (if st then FIRST_ON else FIRST_OFF) \<le> b
             \<and> b \<le> CMDS (if st then FIRST_ON else FIRST_OFF) + 7
             \<and> b - CMDS (if st then FIRST_ON else FIRST_OFF) = r"
  using assms by (simp add: set_state_eq logged_calls)

theorem relay_opcode_roundtrip_witness:
  "\<exists>b. calls (snd (snd (set_state (init 0) 5 False (\<lambda>p. recording_channel []))) 0) =
          [Write [b]]
        \<and> 111 \<le> b \<and> b \<le> 118 \<and> b - 111 = 5"
  using relay_opcode_roundtrip [of 5 "init 0" False "\<lambda>p. recording_channel []"]
  by (simp add: init_def recording_channel_def)

subsection \<open>Switching all relays\<close>

lemma set_states_eq:
  "0 \<le> m \<Longrightarrow> m \<le> 255 \<Longrightarrow>
   set_states self (PyInt m) h =
     (write_outcome h (fd self) [92, m], self, logged h (fd self) [Write [92, m]])"
  by (simp add: set_states_def fd_write_eq)

lemma set_all_eq:
  "set_all self st h =
     (write_outcome h (fd self) [(if st then 100 else 110)], self,
      logged h (fd self) [Write [(if st then 100 else 110)]])"
  by (simp add: set_all_def fd_write_eq Let_def)

text \<open>
  Claim C3. For a mask \<open>m\<close> from 0 to 255, \<open>set_states\<close> makes exactly one call on the
  channel, a write of the two bytes 92 and \<open>m\<close>, and no read; it ends the way that write
  ends, so it returns normally whenever the channel takes the bytes.
\<close>

theorem set_states_writes_mask:
  assumes "0 \<le> m" and "m \<le> 255"
  shows "snd (set_states self (PyInt m) h) =
           (self, logged h (fd self) [Write [92, m]])
         \<and> fst (set_states self (PyInt m) h) = write_outcome h (fd self) [92, m]
         \<and> (on_write (h (fd self)) (calls (h (fd self))) [92, m] = None
             \<longrightarrow> fst (set_states self (PyInt m) h) = Inr ())"
  using assms by (simp add: set_states_eq write_outcome_def)

theorem set_states_writes_mask_witness:
  "set_states (init 0) (PyInt 241) (\<lambda>p. recording_channel []) =
     (Inr (), init 0, logged (\<lambda>p. recording_channel []) 0 [Write [92, 241]])"
  using set_states_writes_mask [of 241 "init 0" "\<lambda>p. recording_channel []"]
  by (simp add: prod_eq_iff init_def recording_channel_def write_outcome_def)

text \<open>
  Claim C7. \<open>set_all\<close> makes exactly one call on the channel, a write of the single
  byte 100 for a true argument and 110 for a false one, and no read; for either argument
  it ends the way that write ends, so it returns normally whenever the channel takes the
  byte.
\<close>

theorem set_all_writes_opcode:
  "snd (set_all self st h) =
     (self, logged h (fd self) [Write [(if st then 100 else 110)]])
   \<and> fst (set_all self st h) = write_outcome h (fd self) [(if st then 100 else 110)]
   \<and> (on_write (h (fd self)) (calls (h (fd self))) [(if st then 100 else 110)] = None
       \<longrightarrow> fst (set_all self st h) = Inr ())"
  by (simp add: set_all_eq write_outcome_def)

theorem set_all_writes_opcode_witness:
  "set_all (init 0) True (\<lambda>p. recording_channel []) =
     (Inr (), init 0, logged (\<lambda>p. recording_channel []) 0 [Write [100]])
   \<and> set_all (init 0) False (\<lambda>p. recording_channel []) =
     (Inr (), init 0, logged (\<lambda>p. recording_channel []) 0 [Write [110]])"
  using set_all_writes_opcode [of "init 0" True "\<lambda>p. recording_channel []"]
    set_all_writes_opcode [of "init 0" False "\<lambda>p. recording_channel []"]
  by (simp add: prod_eq_iff init_def recording_channel_def write_outcome_def)

subsection \<open>The three queries as one exchange\<close>

lemma fd_read_eq:
  "fd_read p n h =
     ((case on_read (h p) (calls (h p)) n of
         Inl e \<Rightarrow> Inl (ChannelError e) | Inr bs \<Rightarrow> Inr bs),
      logged h p [Read n])"
  by (simp add: fd_read_def logged_def Let_def split: sum.split)

lemma get_states_query:
  "get_states self h =
     (case query (fd self) [91] 1
             ''get_states failed to read the requested number of bytes''
             (\<lambda>bs. Inr (uint (bs ! 0))) h of
        (r, h') \<Rightarrow> (r, self, h'))"
  by (auto simp add: get_states_def query_def fd_write_eq fd_read_eq write_outcome_def
      struct_unpack_B_def logged_append logged_calls logged_behaviour
      split: option.split sum.split)

lemma get_serial_query:
  "get_serial self h =
     (case query (fd self) [56] 8
             ''get_serial failed to read the requested number of bytes''
             decode_ascii h of
        (r, h') \<Rightarrow> (r, self, h'))"
  by (auto simp add: get_serial_def query_def fd_write_eq fd_read_eq write_outcome_def
      logged_append logged_calls logged_behaviour
      split: option.split sum.split)

lemma get_sw_version_query:
  "get_sw_version self h =
     (case query (fd self) [90] 2
             ''get_sw_version failed to read the requested number of bytes''
             (\<lambda>bs. Inr (map uint bs)) h of
        (r, h') \<Rightarrow> (r, self, h'))"
  by (auto simp add: get_sw_version_def query_def fd_write_eq fd_read_eq write_outcome_def
      struct_unpack_B_def logged_append logged_calls logged_behaviour
      split: option.split sum.split)

lemma query_answered:
  "on_write (h p) (calls (h p)) req = None \<Longrightarrow>
   on_read (h p) (calls (h p) @ [Write req]) n = Inr bs \<Longrightarrow>
   query p req n msg parse h =
     (if length bs \<noteq> n then Inl (OSError msg) else parse bs,
      logged h p [Write req, Read n])"
  by (simp add: query_def)

lemma query_returns:
  "query p req n msg parse h = (Inr v, h') \<Longrightarrow> \<exists>bs. length bs = n \<and> parse bs = Inr v"
  by (auto simp add: query_def split: option.splits sum.splits if_splits)

subsection \<open>Reading the relay states\<close>

text \<open>
  Claim C4. On a channel that takes the request and answers the read with at most the one
  byte asked for (the channel interface of the spec: a read of \<open>n\<close> returns at most \<open>n\<close>
  bytes), \<open>get_states\<close> makes exactly two calls, a write of the single byte 91 and then a
  read of 1 byte. It raises \<open>OSError\<close> (the spec's ProtocolError) exactly when the channel
  returned fewer than 1 byte, and then returns no value; otherwise it returns the byte it
  received, as an unsigned integer.
\<close>

theorem get_states_exchange:
  assumes "on_write (h (fd self)) (calls (h (fd self))) [91] = None"
    and "on_read (h (fd self)) (calls (h (fd self)) @ [Write [91]]) 1 = Inr bs"
    and "length bs \<le> 1"
  shows "snd (get_states self h) = (self, logged h (fd self) [Write [91], Read 1])
         \<and> ((\<exists>msg. fst (get_states self h) = Inl (OSError msg)) \<longleftrightarrow> length bs < 1)
         \<and> (length bs < 1 \<longrightarrow>
              fst (get_states self h) =
                Inl (OSError ''get_states failed to read the requested number of bytes''))
         \<and> (\<forall>b. bs = [b] \<longrightarrow> fst (get_states self h) = Inr (uint b))"
proof -
  have q: "get_states self h =
      (if length bs \<noteq> 1
       then Inl (OSError ''get_states failed to read the requested number of bytes'')
       else Inr (uint (bs ! 0)), self, logged h (fd self) [Write [91], Read 1])"
    using assms(1,2) by (simp add: get_states_query query_answered)
  have short: "length bs \<noteq> 1 \<longleftrightarrow> length bs < 1"
    using assms(3) by arith
  show ?thesis using short by (auto simp add: q)
qed

theorem get_states_exchange_witness:
  "get_states (init 0) (\<lambda>p. recording_channel [10]) =
     (Inr 10, init 0, logged (\<lambda>p. recording_channel [10]) 0 [Write [91], Read 1])
   \<and> get_states (init 0) (\<lambda>p. recording_channel []) =
     (Inl (OSError ''get_states failed to read the requested number of bytes''), init 0,
      logged (\<lambda>p. recording_channel []) 0 [Write [91], Read 1])"
  using get_states_exchange [of "\<lambda>p. recording_channel [10]" "init 0" "[10]"]
    get_states_exchange [of "\<lambda>p. recording_channel []" "init 0" "[]"]
  by (simp add: prod_eq_iff init_def recording_channel_def)

subsection \<open>Reading the serial number\<close>

lemma decode_ascii_from_ok:
  "\<forall>b\<in>set bs. b < 128 \<Longrightarrow>
   decode_ascii_from i bs = Inr (map (\<lambda>b. char_of (unat b)) bs)"
  by (induction bs arbitrary: i) simp_all

lemma decode_ascii_from_bad:
  "\<exists>b\<in>set bs. 128 \<le> b \<Longrightarrow>
   \<exists>j. j < length bs \<and> 128 \<le> bs ! j \<and> (\<forall>k<j. bs ! k < 128)
       \<and> decode_ascii_from i bs = Inl (UnicodeDecodeError (i + j) (bs ! j))"
proof (induction bs arbitrary: i)
  case Nil
  then show ?case by simp
next
  case (Cons a bs)
  show ?case
  proof (cases "a < 128")
    case False
    then have "128 \<le> a" by simp
    with False show ?thesis by (intro exI [of _ 0]) simp
  next
    case True
    with Cons.prems have "\<exists>b\<in>set bs. 128 \<le> b" by auto
    from Cons.IH [OF this, of "Suc i"] obtain j where
      j: "j < length bs" "128 \<le> bs ! j" "\<forall>k<j. bs ! k < 128"
        "decode_ascii_from (Suc i) bs = Inl (UnicodeDecodeError (Suc i + j) (bs ! j))"
      by blast
    have "\<forall>k<Suc j. (a # bs) ! k < 128"
      using True j(3) by (auto simp add: nth_Cons split: nat.split)
    with True j show ?thesis by (intro exI [of _ "Suc j"]) simp
  qed
qed

text \<open>
  Claim C5. On a channel that takes the request and answers the read with at most the
  eight bytes asked for, \<open>get_serial\<close> makes exactly two calls, a write of the single byte
  56 and then a read of 8 bytes. With fewer than 8 bytes it raises \<open>OSError\<close> (the spec's
  ProtocolError); with 8 bytes of which one is above 127 it raises \<open>UnicodeDecodeError\<close>
  (the spec's DecodeError) at such a byte; with 8 bytes all below 128 it returns the string
  whose characters have these bytes as codes.
\<close>

theorem get_serial_exchange:
  assumes "on_write (h (fd self)) (calls (h (fd self))) [56] = None"
    and "on_read (h (fd self)) (calls (h (fd self)) @ [Write [56]]) 8 = Inr bs"
    and "length bs \<le> 8"
  shows "snd (get_serial self h) = (self, logged h (fd self) [Write [56], Read 8])
         \<and> (length bs < 8 \<longrightarrow>
              fst (get_serial self h) =
                Inl (OSError ''get_serial failed to read the requested number of bytes''))
         \<and> (length bs = 8 \<and> (\<exists>b\<in>set bs. 128 \<le> b) \<longrightarrow>
              (\<exists>j. j < 8 \<and> 128 \<le> bs ! j \<and>
                   fst (get_serial self h) = Inl (UnicodeDecodeError j (bs ! j))))
         \<and> (length bs = 8 \<and> (\<forall>b\<in>set bs. b < 128) \<longrightarrow>
              fst (get_serial self h) = Inr (map (\<lambda>b. char_of (unat b)) bs))"
proof -
  have q: "get_serial self h =
      (if length bs \<noteq> 8
       then Inl (OSError ''get_serial failed to read the requested number of bytes'')
       else decode_ascii bs, self, logged h (fd self) [Write [56], Read 8])"
    using assms(1,2) by (simp add: get_serial_query query_answered)
  have bad: "\<exists>j. j < 8 \<and> 128 \<le> bs ! j \<and>
                fst (get_serial self h) = Inl (UnicodeDecodeError j (bs ! j))"
    if "length bs = 8" and "\<exists>b\<in>set bs. 128 \<le> b"
    using decode_ascii_from_bad [OF that(2), of 0] that(1)
    by (auto simp add: q decode_ascii_def)
  have ok: "fst (get_serial self h) = Inr (map (\<lambda>b. char_of (unat b)) bs)"
    if "length bs = 8" and "\<forall>b\<in>set bs. b < 128"
    using decode_ascii_from_ok [OF that(2), of 0] that(1)
    by (simp add: q decode_ascii_def)
  show ?thesis using bad ok by (simp add: q)
qed

theorem get_serial_exchange_witness:
  "get_serial (init 0) (\<lambda>p. recording_channel [65, 66, 67, 68, 49, 50, 51, 52]) =
     (Inr ''ABCD1234'', init 0,
      logged (\<lambda>p. recording_channel [65, 66, 67, 68, 49, 50, 51, 52]) 0
        [Write [56], Read 8])
   \<and> fst (get_serial (init 0) (\<lambda>p. recording_channel [65, 66, 67, 68, 49])) =
     Inl (OSError ''get_serial failed to read the requested number of bytes'')
   \<and> (\<exists>j b. fst (get_serial (init 0)
                  (\<lambda>p. recording_channel [65, 66, 67, 68, 49, 50, 233, 52])) =
           Inl (UnicodeDecodeError j b))"
proof -
  have e: "map (\<lambda>b. char_of (unat b)) [65, 66, 67, 68, 49, 50, 51, 52 :: byte] = ''ABCD1234''"
    by code_simp
  show ?thesis
    using
      get_serial_exchange [of "\<lambda>p. recording_channel [65, 66, 67, 68, 49, 50, 51, 52]"
        "init 0" "[65, 66, 67, 68, 49, 50, 51, 52]"]
      get_serial_exchange [of "\<lambda>p. recording_channel [65, 66, 67, 68, 49]"
        "init 0" "[65, 66, 67, 68, 49]"]
      get_serial_exchange [of "\<lambda>p. recording_channel [65, 66, 67, 68, 49, 50, 233, 52]"
        "init 0" "[65, 66, 67, 68, 49, 50, 233, 52]"]
      e
    by (auto simp add: prod_eq_iff init_def recording_channel_def)
qed

subsection \<open>Reading the software version\<close>

text \<open>
  Claim C6. On a channel that takes the request and answers the read with at most the two
  bytes asked for, \<open>get_sw_version\<close> makes exactly two calls, a write of the single byte 90
  and then a read of 2 bytes. With fewer than 2 bytes it raises \<open>OSError\<close> (the spec's
  ProtocolError); with 2 bytes it returns the tuple of the two bytes, each as an unsigned
  integer, in the order received.
\<close>

theorem get_sw_version_exchange:
  assumes "on_write (h (fd self)) (calls (h (fd self))) [90] = None"
    and "on_read (h (fd self)) (calls (h (fd self)) @ [Write [90]]) 2 = Inr bs"
    and "length bs \<le> 2"
  shows "snd (get_sw_version self h) = (self, logged h (fd self) [Write [90], Read 2])
         \<and> (length bs < 2 \<longrightarrow>
              fst (get_sw_version self h) =
                Inl (OSError ''get_sw_version failed to read the requested number of bytes''))
         \<and> (\<forall>b0 b1. bs = [b0, b1] \<longrightarrow>
              fst (get_sw_version self h) = Inr [uint b0, uint b1])"
proof -
  have q: "get_sw_version self h =
      (if length bs \<noteq> 2
       then Inl (OSError ''get_sw_version failed to read the requested number of bytes'')
       else Inr (map uint bs), self, logged h (fd self) [Write [90], Read 2])"
    using assms(1,2) by (simp add: get_sw_version_query query_answered)
  show ?thesis by (auto simp add: q)
qed

theorem get_sw_version_exchange_witness:
  "get_sw_version (init 0) (\<lambda>p. recording_channel [5, 2]) =
     (Inr [5, 2], init 0, logged (\<lambda>p. recording_channel [5, 2]) 0 [Write [90], Read 2])
   \<and> fst (get_sw_version (init 0) (\<lambda>p. recording_channel [5])) =
     Inl (OSError ''get_sw_version failed to read the requested number of bytes'')"
  using get_sw_version_exchange [of "\<lambda>p. recording_channel [5, 2]" "init 0" "[5, 2]"]
    get_sw_version_exchange [of "\<lambda>p. recording_channel [5]" "init 0" "[5]"]
  by (simp add: prod_eq_iff init_def recording_channel_def)

subsection \<open>Range of the values read\<close>

lemma uint_byte_range: "0 \<le> uint (b :: byte) \<and> uint b \<le> 255"
  using uint_bounded [of b] by simp

text \<open>
  Claim C10. Whatever the channel does, a value returned by \<open>get_states\<close> lies between 0
  and 255, and a tuple returned by \<open>get_sw_version\<close> has two components, each between 0
  and 255.
\<close>

theorem response_bytes_unsigned:
  "(get_states self h = (Inr v, self', h') \<longrightarrow> 0 \<le> v \<and> v \<le> 255)
   \<and> (get_sw_version self h = (Inr t, self', h') \<longrightarrow>
        length t = 2 \<and> (\<forall>x\<in>set t. 0 \<le> x \<and> x \<le> 255))"
proof (intro conjI impI)
  assume a: "get_states self h = (Inr v, self', h')"
  then have "query (fd self) [91] 1
      ''get_states failed to read the requested number of bytes''
      (\<lambda>bs. Inr (uint (bs ! 0))) h = (Inr v, h')"
    by (simp add: get_states_query split: prod.splits)
  from query_returns [OF this] obtain bs :: "byte list" where "v = uint (bs ! 0)"
    by auto
  then show "0 \<le> v" and "v \<le> 255" using uint_byte_range [of "bs ! 0"] by simp_all
next
  assume a: "get_sw_version self h = (Inr t, self', h')"
  then have "query (fd self) [90] 2
      ''get_sw_version failed to read the requested number of bytes''
      (\<lambda>bs. Inr (map uint bs)) h = (Inr t, h')"
    by (simp add: get_sw_version_query split: prod.splits)
  from query_returns [OF this] obtain bs :: "byte list"
    where bs: "length bs = 2" "t = map uint bs"
    by auto
  from bs show "length t = 2" by simp
  from bs(2) show "\<forall>x\<in>set t. 0 \<le> x \<and> x \<le> 255"
    using uint_byte_range by auto
qed

theorem response_bytes_unsigned_witness:
  "get_states (init 0) (\<lambda>p. recording_channel [255]) =
     (Inr 255, init 0, logged (\<lambda>p. recording_channel [255]) 0 [Write [91], Read 1])
   \<and> get_sw_version (init 0) (\<lambda>p. recording_channel [8, 255]) =
     (Inr [8, 255], init 0, logged (\<lambda>p. recording_channel [8, 255]) 0 [Write [90], Read 2])
   \<and> (0::int) \<le> 255 \<and> (255::int) \<le> 255 \<and> length [8, 255 :: int] = 2
   \<and> list_all (\<lambda>x. 0 \<le> x \<and> x \<le> 255) [8, 255 :: int]"
proof -
  have g: "get_states (init 0) (\<lambda>p. recording_channel [255]) =
     (Inr 255, init 0, logged (\<lambda>p. recording_channel [255]) 0 [Write [91], Read 1])"
    by (simp add: get_states_query query_def recording_channel_def init_def)
  have v: "get_sw_version (init 0) (\<lambda>p. recording_channel [8, 255]) =
     (Inr [8, 255], init 0, logged (\<lambda>p. recording_channel [8, 255]) 0 [Write [90], Read 2])"
    by (simp add: get_sw_version_query query_def recording_channel_def init_def)
  show ?thesis
    using response_bytes_unsigned
      [of "init 0" "\<lambda>p. recording_channel [255]" 255 "init 0"
        "logged (\<lambda>p. recording_channel [255]) 0 [Write [91], Read 1]"]
      response_bytes_unsigned
      [of "init 0" "\<lambda>p. recording_channel [8, 255]" _ "init 0"
        "logged (\<lambda>p. recording_channel [8, 255]) 0 [Write [90], Read 2]" "[8, 255]"]
      g v
    by simp
qed

subsection \<open>One exchange per call, no retry\<close>

lemma failure_write_outcome:
  "failure (write_outcome h p d) = map_option ChannelError (on_write (h p) (calls (h p)) d)"
  by (simp add: failure_def write_outcome_def split: option.split)

lemma forget_query:
  assumes "forget (case query p d n msg parse h of (r, h') \<Rightarrow> (r, self, h')) = (res, self', h')"
  shows "self' = self \<and>
   ((h' = h \<and> (\<exists>m. res = Some (ValueError m)))
    \<or> (\<exists>d. h' = logged h p [Write d]
           \<and> res = map_option ChannelError (on_write (h p) (calls (h p)) d))
    \<or> (\<exists>d n msg. on_write (h p) (calls (h p)) d = None
           \<and> h' = logged h p [Write d, Read n]
           \<and> (case on_read (h p) (calls (h p) @ [Write d]) n of
                 Inl e \<Rightarrow> res = Some (ChannelError e)
               | Inr bs \<Rightarrow> length bs \<noteq> n \<longrightarrow> res = Some (OSError msg))))"
proof (cases "on_write (h p) (calls (h p)) d")
  case (Some e)
  with assms have "self' = self" "h' = logged h p [Write d]"
    "res = map_option ChannelError (on_write (h p) (calls (h p)) d)"
    by (simp_all add: forget_def query_def failure_def)
  then show ?thesis by blast
next
  case None
  with assms have "self' = self" "h' = logged h p [Write d, Read n]"
    "case on_read (h p) (calls (h p) @ [Write d]) n of
       Inl e \<Rightarrow> res = Some (ChannelError e)
     | Inr bs \<Rightarrow> length bs \<noteq> n \<longrightarrow> res = Some (OSError msg)"
    by (auto simp add: forget_def query_def failure_def split: sum.splits if_splits)
  with None show ?thesis by blast
qed

lemma invoke_cases:
  assumes "invoke c self h = (res, self', h')"
  shows "self' = self \<and>
   ((h' = h \<and> (\<exists>m. res = Some (ValueError m)))
    \<or> (\<exists>d. h' = logged h (fd self) [Write d]
           \<and> res = map_option ChannelError (on_write (h (fd self)) (calls (h (fd self))) d))
    \<or> (\<exists>d n msg. on_write (h (fd self)) (calls (h (fd self))) d = None
           \<and> h' = logged h (fd self) [Write d, Read n]
           \<and> (case on_read (h (fd self)) (calls (h (fd self)) @ [Write d]) n of
                 Inl e \<Rightarrow> res = Some (ChannelError e)
               | Inr bs \<Rightarrow> length bs \<noteq> n \<longrightarrow> res = Some (OSError msg))))"
proof (cases c)
  case (SetState r st)
  show ?thesis
  proof (cases "r < 0 \<or> 7 < r")
    case True
    with assms SetState show ?thesis
      by (auto simp add: set_state_def forget_def failure_def)
  next
    case False
    then have "0 \<le> r" "r \<le> 7" by simp_all
    with assms SetState show ?thesis
      by (auto simp add: set_state_eq forget_def failure_write_outcome)
  qed
next
  case (SetStates v)
  show ?thesis
  proof (cases "\<exists>m. v = PyInt m \<and> 0 \<le> m \<and> m \<le> 255")
    case True
    then obtain m where "v = PyInt m" "0 \<le> m" "m \<le> 255" by blast
    with assms SetStates show ?thesis
      by (auto simp add: set_states_eq forget_def failure_write_outcome)
  next
    case False
    with assms SetStates show ?thesis
      by (auto simp add: set_states_def forget_def failure_def split: pyval.splits)
  qed
next
  case GetStates
  with assms have "forget (get_states self h) = (res, self', h')" by simp
  from forget_query [OF this [unfolded get_states_query]] show ?thesis .
next
  case (SetAll st)
  with assms show ?thesis
    by (auto simp add: set_all_eq forget_def failure_write_outcome)
next
  case GetSerial
  with assms have "forget (get_serial self h) = (res, self', h')" by simp
  from forget_query [OF this [unfolded get_serial_query]] show ?thesis .
next
  case GetSwVersion
  with assms have "forget (get_sw_version self h) = (res, self', h')" by simp
  from forget_query [OF this [unfolded get_sw_version_query]] show ?thesis .
qed


lemma split_one: "[x] = pre @ ev # post \<longleftrightarrow> pre = [] \<and> ev = x \<and> post = []"
  by (auto simp add: Cons_eq_append_conv)

lemma split_two:
  "[x, y] = pre @ ev # post \<longleftrightarrow>
     (pre = [] \<and> ev = x \<and> post = [y]) \<or> (pre = [x] \<and> ev = y \<and> post = [])"
  by (auto simp add: Cons_eq_append_conv)

text \<open>
  Claim C9. Any call of any method returns the object as it was, with the same channel
  reference; it leaves every other channel of the heap alone and the behaviour of its own
  channel unchanged; the calls it adds to the channel's record are none, one write, or one
  write followed by one read. Whenever one of these calls raises, it is the last call made
  and the method ends with that exception; whenever the read returns fewer bytes than
  asked, it is the last call made and the method ends with \<open>OSError\<close>.
\<close>

theorem single_exchange_no_retry:
  assumes "invoke c self h = (res, self', h')"
  shows "self' = self
    \<and> (\<forall>q. q \<noteq> fd self \<longrightarrow> h' q = h q)
    \<and> on_write (h' (fd self)) = on_write (h (fd self))
    \<and> on_read (h' (fd self)) = on_read (h (fd self))
    \<and> (\<exists>evs. calls (h' (fd self)) = calls (h (fd self)) @ evs \<and> exchange_shape evs
         \<and> (\<forall>pre ev post. evs = pre @ ev # post \<longrightarrow>
               (\<forall>e. channel_raises (h (fd self)) (calls (h (fd self)) @ pre) ev = Some e
                    \<longrightarrow> post = [] \<and> res = Some (ChannelError e))
               \<and> (short_read (h (fd self)) (calls (h (fd self)) @ pre) ev
                    \<longrightarrow> post = [] \<and> (\<exists>msg. res = Some (OSError msg)))))"
proof -
  let ?p = "fd self"
  let ?c = "h ?p"
  let ?trace = "\<lambda>evs. calls (h' ?p) = calls ?c @ evs \<and> exchange_shape evs
         \<and> (\<forall>pre ev post. evs = pre @ ev # post \<longrightarrow>
               (\<forall>e. channel_raises ?c (calls ?c @ pre) ev = Some e
                    \<longrightarrow> post = [] \<and> res = Some (ChannelError e))
               \<and> (short_read ?c (calls ?c @ pre) ev
                    \<longrightarrow> post = [] \<and> (\<exists>msg. res = Some (OSError msg))))"
  from invoke_cases [OF assms] have self: "self' = self" by blast
  from invoke_cases [OF assms] consider
      (none) "h' = h"
    | (written) d where "h' = logged h ?p [Write d]"
        "res = map_option ChannelError (on_write ?c (calls ?c) d)"
    | (asked) d n msg where "on_write ?c (calls ?c) d = None"
        "h' = logged h ?p [Write d, Read n]"
        "case on_read ?c (calls ?c @ [Write d]) n of
           Inl e \<Rightarrow> res = Some (ChannelError e)
         | Inr bs \<Rightarrow> length bs \<noteq> n \<longrightarrow> res = Some (OSError msg)"
    by blast
  then have "(\<forall>q. q \<noteq> ?p \<longrightarrow> h' q = h q)
    \<and> on_write (h' ?p) = on_write ?c \<and> on_read (h' ?p) = on_read ?c
    \<and> (\<exists>evs. ?trace evs)"
  proof cases
    case none
    have "?trace []" by (simp add: none)
    then have "\<exists>evs. ?trace evs" ..
    then show ?thesis by (simp add: none)
  next
    case written
    have "?trace [Write d]"
      by (simp add: written logged_calls split_one)
    then have "\<exists>evs. ?trace evs" ..
    then show ?thesis by (simp add: written logged_other logged_behaviour)
  next
    case asked
    have "?trace [Write d, Read n]"
      using asked(1,3)
      by (auto simp add: asked(2) logged_calls split_two split: sum.splits)
    then have "\<exists>evs. ?trace evs" ..
    then show ?thesis by (simp add: asked(2) logged_other logged_behaviour)
  qed
  with self show ?thesis by simp
qed

theorem single_exchange_no_retry_witness:
  "invoke GetStates (init 0) (\<lambda>p. deaf_channel) =
     (Some (ChannelError ''read failed''), init 0,
      logged (\<lambda>p. deaf_channel) 0 [Write [91], Read 1])
   \<and> invoke GetSerial (init 0) (\<lambda>p. recording_channel [65, 66, 67, 68, 49]) =
     (Some (OSError ''get_serial failed to read the requested number of bytes''), init 0,
      logged (\<lambda>p. recording_channel [65, 66, 67, 68, 49]) 0 [Write [56], Read 8])
   \<and> (\<exists>evs. calls (logged (\<lambda>p. deaf_channel) 0 [Write [91], Read 1] 0) =
               calls deaf_channel @ evs \<and> exchange_shape evs)
   \<and> (\<exists>evs. calls (logged (\<lambda>p. recording_channel [65, 66, 67, 68, 49]) 0
                 [Write [56], Read 8] 0) =
               calls (recording_channel [65, 66, 67, 68, 49]) @ evs \<and> exchange_shape evs)"
proof -
  have g: "invoke GetStates (init 0) (\<lambda>p. deaf_channel) =
     (Some (ChannelError ''read failed''), init 0,
      logged (\<lambda>p. deaf_channel) 0 [Write [91], Read 1])"
    by (simp add: get_states_query query_def deaf_channel_def init_def forget_def
        failure_def)
  have s: "invoke GetSerial (init 0) (\<lambda>p. recording_channel [65, 66, 67, 68, 49]) =
     (Some (OSError ''get_serial failed to read the requested number of bytes''), init 0,
      logged (\<lambda>p. recording_channel [65, 66, 67, 68, 49]) 0 [Write [56], Read 8])"
    by (simp add: get_serial_query query_def recording_channel_def init_def forget_def
        failure_def)
  from single_exchange_no_retry [OF g] single_exchange_no_retry [OF s] g s
  show ?thesis by (simp add: init_def) blast
qed

end
